theory Spec2Isabelle
  imports Main "HOL-Library.Word"
begin

unbundle bit_operations_syntax

section \<open>Bytes and the Python byte-string operations used by \<open>decrypt_ncm\<close>\<close>

type_synonym byte = "8 word"
type_synonym bytes = "byte list"

text \<open>The module constants of \<open>ncm2mp3.py\<close> (lines 26 to 30).\<close>

definition MAGIC_HEADER :: bytes where
  "MAGIC_HEADER = [0x43, 0x54, 0x45, 0x4E, 0x46, 0x44, 0x41, 0x4D]"

definition AES_KEY :: bytes where
  "AES_KEY = [0x68, 0x7A, 0x48, 0x52, 0x41, 0x6D, 0x73, 0x6F,
              0x35, 0x6B, 0x49, 0x6E, 0x62, 0x61, 0x78, 0x57]"

definition META_XOR_KEY :: byte where
  "META_XOR_KEY = 0x63"

definition KEY_XOR_KEY :: byte where
  "KEY_XOR_KEY = 0x64"

definition HEADER :: bytes where
  "HEADER = [0x6E, 0x65, 0x74, 0x65, 0x61, 0x73, 0x65, 0x63, 0x6C,
             0x6F, 0x75, 0x64, 0x6D, 0x75, 0x73, 0x69, 0x63]"

text \<open>
  \<open>bytes([b ^ m for b in xs])\<close>, the comprehension of lines 114 and 234.
\<close>

definition xor_mask :: "byte \<Rightarrow> bytes \<Rightarrow> bytes" where
  "xor_mask m xs = map (\<lambda>b. b XOR m) xs"

section \<open>The XOR masks\<close>

text \<open>
  Claim C7. For every byte sequence, unmasking twice with the key-box mask
  \<open>KEY_XOR_KEY = 0x64\<close> gives the sequence back, and so does unmasking twice with the
  metadata mask \<open>META_XOR_KEY = 0x63\<close>: each mask is its own inverse.
\<close>

theorem xor_mask_self_inverse:
  "xor_mask KEY_XOR_KEY (xor_mask KEY_XOR_KEY x) = x \<and>
   xor_mask META_XOR_KEY (xor_mask META_XOR_KEY x) = x \<and>
   KEY_XOR_KEY = 0x64 \<and> META_XOR_KEY = 0x63"
proof -
  have cancel: "(b XOR m) XOR m = b" for b m :: byte
    by (simp add: xor.assoc)
  have inv: "xor_mask m (xor_mask m x) = x" for m
    by (induction x) (simp_all add: xor_mask_def cancel)
  show ?thesis
    by (simp add: inv KEY_XOR_KEY_def META_XOR_KEY_def)
qed

end
